theory Spec2Isabelle
  imports Complex_Main "HOL-Library.Word" "HOL-Library.Signed_Division"
begin

unbundle bit_operations_syntax

section \<open>The motor-control sketch as a state transformer\<close>

text \<open>
  The firmware targets the Arduino Uno R3 (AVR): \<open>int\<close> is a 16-bit two's complement
  value, \<open>long\<close> and \<open>unsigned long\<close> are 32 bits wide. Words carry the bits; \<open>sint\<close>
  reads a signed value, and \<open>\<le>\<close> on words is the unsigned comparison.
\<close>

type_synonym cint = "16 word"
type_synonym clong = "32 word"

subsection \<open>Pin and protocol constants\<close>

definition HIGH :: cint where "HIGH = 1"
definition LOW :: cint where "LOW = 0"
definition OUTPUT :: cint where "OUTPUT = 1"
definition INPUT_PULLUP :: cint where "INPUT_PULLUP = 2"
definition A0 :: cint where "A0 = 14"
definition A1 :: cint where "A1 = 15"
definition A2 :: cint where "A2 = 16"

definition ENA :: cint where "ENA = 5"
definition IN1 :: cint where "IN1 = 7"
definition IN2 :: cint where "IN2 = 8"
definition ENB :: cint where "ENB = 6"
definition IN3 :: cint where "IN3 = 9"
definition IN4 :: cint where "IN4 = 11"
definition SENSOR_PIN_1 :: cint where "SENSOR_PIN_1 = 2"
definition SENSOR_PIN_2 :: cint where "SENSOR_PIN_2 = 3"
definition LDR_LEFT_PIN :: cint where "LDR_LEFT_PIN = A0"
definition LDR_RIGHT_PIN :: cint where "LDR_RIGHT_PIN = A1"
definition FEEDBACK_MOTOR_PIN_FWD :: cint where "FEEDBACK_MOTOR_PIN_FWD = 12"
definition FEEDBACK_MOTOR_PIN_REV :: cint where "FEEDBACK_MOTOR_PIN_REV = 13"
definition EEPROM_ADDR_MS_PER_MM :: nat where "EEPROM_ADDR_MS_PER_MM = 0"
definition EEPROM_ADDR_MS_PER_DEG :: nat where "EEPROM_ADDR_MS_PER_DEG = 4"
definition SENSOR_CHECK_INTERVAL :: clong where "SENSOR_CHECK_INTERVAL = 250"

subsection \<open>The observable effects and the state\<close>

text \<open>
  Every call into the board is recorded, in program order, in one trace. A print of a
  \<open>float\<close> is recorded with the token whose \<open>atof\<close> value is printed; the digits that
  the board renders for it are outside this model.
\<close>

datatype event =
    SerialBegin nat
  | SerialPrint string
  | SerialPrintFloat string
  | PinMode cint cint
  | DigitalWrite cint cint
  | AnalogWrite cint cint
  | Delay clong

text \<open>
  The globals of the sketch, followed by the board: the EEPROM bytes, the value
  \<open>millis()\<close> returns, what \<open>digitalRead\<close> and \<open>analogRead\<close> return for a pin, and the
  trace. Time passes only in \<open>delay\<close> and between the calls of one loop iteration.
\<close>

record state =
  sensor1_last_state :: cint
  sensor2_last_state :: cint
  inputString :: string
  stringComplete :: bool
  motor_speeds :: "cint list"
  ms_per_mm :: cint
  ms_per_deg :: cint
  sensor_report_enabled :: bool
  move_timer_start :: clong
  move_duration :: clong
  timed_move_motor_id :: cint
  last_sensor_check :: clong
  eeprom :: "nat \<Rightarrow> 8 word"
  clock :: clong
  digital_in :: "cint \<Rightarrow> cint"
  analog_in :: "cint \<Rightarrow> cint"
  io :: "event list"

text \<open>The initialisers of the globals, on a board with the given EEPROM and inputs.\<close>

definition power_on :: "(nat \<Rightarrow> 8 word) \<Rightarrow> (cint \<Rightarrow> cint) \<Rightarrow> (cint \<Rightarrow> cint) \<Rightarrow> state" where
  "power_on rom dins ains =
     \<lparr> sensor1_last_state = - 1, sensor2_last_state = - 1,
       inputString = [], stringComplete = False,
       motor_speeds = [255, 255],
       ms_per_mm = 50, ms_per_deg = 10,
       sensor_report_enabled = True,
       move_timer_start = 0, move_duration = 0, timed_move_motor_id = - 1,
       last_sensor_check = 0,
       eeprom = rom, clock = 0, digital_in = dins, analog_in = ains, io = [] \<rparr>"

subsection \<open>Board primitives\<close>

definition emit :: "event \<Rightarrow> state \<Rightarrow> state" where
  "emit e s = s\<lparr>io := io s @ [e]\<rparr>"

definition pinMode :: "cint \<Rightarrow> cint \<Rightarrow> state \<Rightarrow> state" where
  "pinMode pin mode = emit (PinMode pin mode)"

definition digitalWrite :: "cint \<Rightarrow> cint \<Rightarrow> state \<Rightarrow> state" where
  "digitalWrite pin v = emit (DigitalWrite pin v)"

definition analogWrite :: "cint \<Rightarrow> cint \<Rightarrow> state \<Rightarrow> state" where
  "analogWrite pin v = emit (AnalogWrite pin v)"

definition digitalRead :: "cint \<Rightarrow> state \<Rightarrow> cint" where
  "digitalRead pin s = digital_in s pin"

definition analogRead :: "cint \<Rightarrow> state \<Rightarrow> cint" where
  "analogRead pin s = analog_in s pin"

definition millis :: "state \<Rightarrow> clong" where
  "millis s = clock s"

definition delay :: "clong \<Rightarrow> state \<Rightarrow> state" where
  "delay n s = emit (Delay n) (s\<lparr>clock := clock s + n\<rparr>)"

text \<open>Decimal rendering of \<open>Serial.print(int)\<close>; \<open>println\<close> ends the line with CR LF.\<close>

definition digit_char :: "nat \<Rightarrow> char" where
  "digit_char d = ''0123456789'' ! d"

fun digits_of :: "nat \<Rightarrow> string" where
  "digits_of n =
     (if n < 10 then [digit_char n] else digits_of (n div 10) @ [digit_char (n mod 10)])"

declare digits_of.simps [simp del]

definition print_int :: "int \<Rightarrow> string" where
  "print_int k = (if k < 0 then CHR ''-'' # digits_of (nat (- k)) else digits_of (nat k))"

definition CRLF :: string where
  "CRLF = [CHR 0x0D, CHR 0x0A]"

definition Serial_print :: "string \<Rightarrow> state \<Rightarrow> state" where
  "Serial_print str = emit (SerialPrint str)"

definition Serial_println :: "string \<Rightarrow> state \<Rightarrow> state" where
  "Serial_println str = emit (SerialPrint (str @ CRLF))"

definition Serial_print_int :: "cint \<Rightarrow> state \<Rightarrow> state" where
  "Serial_print_int v = Serial_print (print_int (sint v))"

definition Serial_println_int :: "cint \<Rightarrow> state \<Rightarrow> state" where
  "Serial_println_int v = Serial_println (print_int (sint v))"

definition Serial_print_float :: "string \<Rightarrow> state \<Rightarrow> state" where
  "Serial_print_float tok = emit (SerialPrintFloat tok)"

text \<open>
  \<open>EEPROM.get\<close> and \<open>EEPROM.put\<close> at type \<open>int\<close>: \<open>sizeof(int)\<close> = 2 bytes, low byte
  first.
\<close>

definition EEPROM_get :: "nat \<Rightarrow> state \<Rightarrow> cint" where
  "EEPROM_get addr s = word_cat (eeprom s (addr + 1)) (eeprom s addr)"

definition EEPROM_put :: "nat \<Rightarrow> cint \<Rightarrow> state \<Rightarrow> state" where
  "EEPROM_put addr v s =
     s\<lparr>eeprom := (eeprom s)(addr := ucast v, addr + 1 := ucast (drop_bit 8 v))\<rparr>"

subsection \<open>Views of the trace\<close>

text \<open>The characters written to the serial port by text and integer prints, in order.\<close>

fun serial_text :: "event list \<Rightarrow> string" where
  "serial_text [] = []"
| "serial_text (SerialPrint str # es) = str @ serial_text es"
| "serial_text (e # es) = serial_text es"


subsection \<open>Motor control\<close>

definition runMotor :: "cint \<Rightarrow> bool \<Rightarrow> state \<Rightarrow> state" where
  "runMotor mid forward s =
     (if mid = 0 then
        (let s = digitalWrite IN1 (if forward then HIGH else LOW) s;
             s = digitalWrite IN2 (if forward then LOW else HIGH) s
         in analogWrite ENA (motor_speeds s ! 0) s)
      else if mid = 1 then
        (let s = digitalWrite IN3 (if forward then HIGH else LOW) s;
             s = digitalWrite IN4 (if forward then LOW else HIGH) s
         in analogWrite ENB (motor_speeds s ! 1) s)
      else s)"

definition stopMotor :: "cint \<Rightarrow> state \<Rightarrow> state" where
  "stopMotor mid s =
     (if mid = 0 then
        (let s = digitalWrite IN1 LOW s;
             s = digitalWrite IN2 LOW s
         in analogWrite ENA 0 s)
      else if mid = 1 then
        (let s = digitalWrite IN3 LOW s;
             s = digitalWrite IN4 LOW s
         in analogWrite ENB 0 s)
      else s)"

definition homeMotor :: "cint \<Rightarrow> state \<Rightarrow> state" where
  "homeMotor mid s =
     (let s = Serial_print ''INFO:Homing for motor '' s;
          s = Serial_print_int mid s
      in Serial_println '' not yet implemented.'' s)"

definition startTimedMove :: "cint \<Rightarrow> bool \<Rightarrow> clong \<Rightarrow> state \<Rightarrow> state" where
  "startTimedMove mid forward duration s =
     (let s = s\<lparr>timed_move_motor_id := mid\<rparr>;
          s = s\<lparr>move_duration := duration\<rparr>;
          s = s\<lparr>move_timer_start := millis s\<rparr>
      in runMotor mid forward s)"

definition updateTimedMove :: "state \<Rightarrow> state" where
  "updateTimedMove s =
     (if timed_move_motor_id s \<noteq> - 1 then
        (if move_duration s \<le> millis s - move_timer_start s then
           (let s = stopMotor (timed_move_motor_id s) s
            in s\<lparr>timed_move_motor_id := - 1\<rparr>)
         else s)
      else s)"

definition testMotor :: "cint \<Rightarrow> state \<Rightarrow> state" where
  "testMotor mid s =
     (let s = Serial_print ''INFO:Testing motor '' s;
          s = Serial_println_int mid s;
          s = runMotor mid True s;
          s = delay 250 s;
          s = stopMotor mid s
      in Serial_println ''INFO:Test complete.'' s)"

definition moveMotorDistance :: "cint \<Rightarrow> string \<Rightarrow> state \<Rightarrow> state" where
  "moveMotorDistance mid distance s =
     (let s = Serial_print ''INFO:MOVE_DIST for motor '' s;
          s = Serial_print_int mid s;
          s = Serial_print '' by '' s;
          s = Serial_print_float distance s;
          s = Serial_println ''mm'' s;
          s = digitalWrite FEEDBACK_MOTOR_PIN_FWD HIGH s;
          s = digitalWrite FEEDBACK_MOTOR_PIN_REV LOW s;
          s = runMotor mid True s;
          s = delay 250 s;
          s = stopMotor mid s;
          s = digitalWrite FEEDBACK_MOTOR_PIN_FWD LOW s
      in digitalWrite FEEDBACK_MOTOR_PIN_REV LOW s)"

definition turnMotor :: "cint \<Rightarrow> string \<Rightarrow> state \<Rightarrow> state" where
  "turnMotor mid degrees s =
     (let s = Serial_print ''INFO:TURN for motor '' s;
          s = Serial_print_int mid s;
          s = Serial_print '' by '' s;
          s = Serial_print_float degrees s;
          s = Serial_println '' degrees.'' s;
          s = digitalWrite FEEDBACK_MOTOR_PIN_FWD HIGH s;
          s = digitalWrite FEEDBACK_MOTOR_PIN_REV LOW s;
          s = runMotor mid True s;
          s = delay 250 s;
          s = stopMotor mid s;
          s = digitalWrite FEEDBACK_MOTOR_PIN_FWD LOW s
      in digitalWrite FEEDBACK_MOTOR_PIN_REV LOW s)"

subsection \<open>Sensors and placeholders\<close>

definition updateSensorStates :: "state \<Rightarrow> state" where
  "updateSensorStates s =
     (if SENSOR_CHECK_INTERVAL \<le> millis s - last_sensor_check s then
        (let s = s\<lparr>last_sensor_check := millis s\<rparr>;
             current_state1 = digitalRead SENSOR_PIN_1 s;
             s = (if current_state1 \<noteq> sensor1_last_state s then
                    (let s = s\<lparr>sensor1_last_state := current_state1\<rparr>;
                         s = Serial_print ''SENSOR_STATE:'' s;
                         s = Serial_print_int SENSOR_PIN_1 s;
                         s = Serial_print '':'' s
                     in Serial_println_int current_state1 s)
                  else s);
             current_state2 = digitalRead SENSOR_PIN_2 s
         in (if current_state2 \<noteq> sensor2_last_state s then
               (let s = s\<lparr>sensor2_last_state := current_state2\<rparr>;
                    s = Serial_print ''SENSOR_STATE:'' s;
                    s = Serial_print_int SENSOR_PIN_2 s;
                    s = Serial_print '':'' s
                in Serial_println_int current_state2 s)
             else s))
      else s)"

definition calibrateMotors :: "state \<Rightarrow> state" where
  "calibrateMotors s =
     (let s = Serial_println ''INFO:Starting motor calibration...'' s;
          s = delay 2000 s
      in Serial_println ''INFO:Motor calibration complete.'' s)"

definition calibrateSensors :: "state \<Rightarrow> state" where
  "calibrateSensors s =
     (let s = Serial_println ''INFO:Starting sensor calibration...'' s;
          s = Serial_println ''INFO:Please cover light sensors now.'' s;
          s = delay 3000 s;
          s = Serial_println ''INFO:Please expose light sensors to bright light.'' s;
          s = delay 3000 s
      in Serial_println ''INFO:Sensor calibration complete.'' s)"

definition abs_int :: "cint \<Rightarrow> cint" where
  "abs_int x = (if sint x < 0 then - x else x)"

definition trackSun :: "state \<Rightarrow> state" where
  "trackSun s =
     (let left_val = analogRead LDR_LEFT_PIN s;
          right_val = analogRead LDR_RIGHT_PIN s;
          s = Serial_print ''INFO:Sun tracking check. L:'' s;
          s = Serial_print_int left_val s;
          s = Serial_print '' R:'' s;
          s = Serial_println_int right_val s;
          error = left_val - right_val;
          tolerance = (50 :: cint)
      in (if sint tolerance < sint (abs_int error) then
            (let s = runMotor 0 (0 < sint error) s;
                 s = delay 50 s
             in stopMotor 0 s)
          else s))"

subsection \<open>Boot\<close>

definition setup_sketch :: "state \<Rightarrow> state" where
  "setup_sketch s =
     (let s = emit (SerialBegin 115200) s;
          s = s\<lparr>ms_per_mm := EEPROM_get EEPROM_ADDR_MS_PER_MM s\<rparr>;
          s = s\<lparr>ms_per_deg := EEPROM_get EEPROM_ADDR_MS_PER_DEG s\<rparr>;
          s = (if sint (ms_per_mm s) \<le> 0 then s\<lparr>ms_per_mm := 50\<rparr> else s);
          s = (if sint (ms_per_deg s) \<le> 0 then s\<lparr>ms_per_deg := 10\<rparr> else s);
          s = pinMode ENA OUTPUT s;
          s = pinMode IN1 OUTPUT s;
          s = pinMode IN2 OUTPUT s;
          s = pinMode ENB OUTPUT s;
          s = pinMode IN3 OUTPUT s;
          s = pinMode IN4 OUTPUT s;
          s = pinMode SENSOR_PIN_1 INPUT_PULLUP s;
          s = pinMode SENSOR_PIN_2 INPUT_PULLUP s;
          s = pinMode FEEDBACK_MOTOR_PIN_FWD OUTPUT s;
          s = pinMode FEEDBACK_MOTOR_PIN_REV OUTPUT s;
          s = stopMotor 0 s;
          s = stopMotor 1 s;
          s = Serial_print ''STATUS:Arduino Ready. CAL:MS_PER_MM:'' s;
          s = Serial_print_int (ms_per_mm s) s;
          s = Serial_print '':MS_PER_DEG:'' s
      in Serial_println_int (ms_per_deg s) s)"

subsection \<open>C strings: \<open>String.trim\<close>, \<open>strtok\<close>, \<open>atoi\<close>, \<open>atol\<close>\<close>

text \<open>
  A \<open>char*\<close> is a \<open>string\<close> without NUL; a null pointer is the absence of a token.
  \<open>atoi\<close> and \<open>atol\<close> skip white space, read an optional sign and the decimal digits
  that follow, and stop at the first other character (no digit at all gives 0). A value
  that does not fit the result type keeps its low bits, as avr-libc computes it.
\<close>

definition isspace :: "char \<Rightarrow> bool" where
  "isspace c = (c = CHR '' '' \<or> c = CHR 0x09 \<or> c = CHR 0x0A \<or> c = CHR 0x0B
                \<or> c = CHR 0x0C \<or> c = CHR 0x0D)"

definition isdigit :: "char \<Rightarrow> bool" where
  "isdigit c = (48 \<le> (of_char c :: nat) \<and> (of_char c :: nat) \<le> 57)"

primrec digits_value :: "int \<Rightarrow> string \<Rightarrow> int" where
  "digits_value acc [] = acc"
| "digits_value acc (c # cs) =
     (if isdigit c then digits_value (acc * 10 + (int (of_char c) - 48)) cs else acc)"

definition strtol_value :: "string \<Rightarrow> int" where
  "strtol_value str =
     (case dropWhile isspace str of
        [] \<Rightarrow> 0
      | c # cs \<Rightarrow>
          if c = CHR ''-'' then - digits_value 0 cs
          else if c = CHR ''+'' then digits_value 0 cs
          else digits_value 0 (c # cs))"

definition atoi :: "string \<Rightarrow> cint" where
  "atoi str = of_int (strtol_value str)"

definition atol :: "string \<Rightarrow> clong" where
  "atol str = of_int (strtol_value str)"

definition trim :: "string \<Rightarrow> string" where
  "trim str = rev (dropWhile isspace (rev (dropWhile isspace str)))"

text \<open>
  \<open>toCharArray\<close> copies at most \<open>bufsize - 1\<close> characters and terminates the buffer;
  read as a C string, the buffer ends at the first NUL among them.
\<close>

definition toCharArray :: "nat \<Rightarrow> string \<Rightarrow> string" where
  "toCharArray bufsize str = takeWhile (\<lambda>c. c \<noteq> CHR 0x00) (take (bufsize - 1) str)"

definition stripTrailing :: "string \<Rightarrow> string" where
  "stripTrailing tok =
     rev (dropWhile (\<lambda>c. c = CHR 0x0D \<or> c = CHR 0x0A \<or> c = CHR '' '' \<or> c = CHR 0x09) (rev tok))"

text \<open>
  The successive results of \<open>strtok(buf, ":")\<close>, \<open>strtok(NULL, ":")\<close>, ...: the maximal
  runs of characters other than the delimiter, in order; once the list is used up the
  call returns the null pointer.
\<close>

primrec strtok_acc :: "string \<Rightarrow> string \<Rightarrow> string list" where
  "strtok_acc cur [] = (if cur = [] then [] else [cur])"
| "strtok_acc cur (c # cs) =
     (if c = CHR '':'' then (if cur = [] then strtok_acc [] cs else cur # strtok_acc [] cs)
      else strtok_acc (cur @ [c]) cs)"

definition strtok_all :: "string \<Rightarrow> string list" where
  "strtok_all buf = strtok_acc [] buf"

text \<open>The Arduino \<open>map\<close> utility on \<open>long\<close>; \<open>/\<close> truncates towards zero.\<close>

definition long_div :: "clong \<Rightarrow> clong \<Rightarrow> clong" where
  "long_div a b = of_int (sint a sdiv sint b)"

definition map_long :: "clong \<Rightarrow> clong \<Rightarrow> clong \<Rightarrow> clong \<Rightarrow> clong \<Rightarrow> clong" where
  "map_long x in_min in_max out_min out_max =
     (if in_max = in_min then out_min
      else long_div ((x - in_min) * (out_max - out_min)) (in_max - in_min) + out_min)"

subsection \<open>The command handlers of \<open>handleSerialCommands\<close>\<close>

text \<open>
  Passing a null pointer to \<open>atoi\<close>, \<open>atol\<close>, \<open>atof\<close> or \<open>strcmp\<close> is undefined
  behaviour: the handler then yields the fault instead of a state.
\<close>

datatype fault = NullPointer

definition cmd_MOTOR_CMD :: "string list \<Rightarrow> state \<Rightarrow> fault + state" where
  "cmd_MOTOR_CMD args s =
     (case args of
        id_tok # sub_cmd # rest \<Rightarrow>
          (let mid = atoi id_tok in
           if sub_cmd = ''FWD'' then Inr (runMotor mid True s)
           else if sub_cmd = ''REV'' then Inr (runMotor mid False s)
           else if sub_cmd = ''STOP'' then Inr (stopMotor mid s)
           else if sub_cmd = ''HOME'' then Inr (homeMotor mid s)
           else Inr s)
      | _ \<Rightarrow> Inl NullPointer)"

definition cmd_SET_SPEED :: "string list \<Rightarrow> state \<Rightarrow> fault + state" where
  "cmd_SET_SPEED args s =
     (case args of
        id_str # pct_tok # rest \<Rightarrow>
          (let speed_percent = atoi pct_tok;
               speed_val = (ucast (map_long (scast speed_percent) 0 100 0 255) :: cint)
           in if id_str = ''*'' then
                (let s = s\<lparr>motor_speeds := (motor_speeds s)[0 := speed_val]\<rparr>
                 in Inr (s\<lparr>motor_speeds := (motor_speeds s)[1 := speed_val]\<rparr>))
              else
                (let mid = atoi id_str in
                 if 0 \<le> sint mid \<and> sint mid < 2
                 then Inr (s\<lparr>motor_speeds := (motor_speeds s)[nat (sint mid) := speed_val]\<rparr>)
                 else Inr s))
      | _ \<Rightarrow> Inl NullPointer)"

definition cmd_SET_OUTPUT :: "string list \<Rightarrow> state \<Rightarrow> fault + state" where
  "cmd_SET_OUTPUT args s =
     (case args of
        pin_tok # state_tok # rest \<Rightarrow>
          (let pin = atoi pin_tok;
               level = atoi state_tok;
               s = pinMode pin OUTPUT s
           in Inr (digitalWrite pin level s))
      | _ \<Rightarrow> Inl NullPointer)"

definition cmd_GET_CAL :: "state \<Rightarrow> state" where
  "cmd_GET_CAL s =
     (let s = Serial_print ''CAL:MS_PER_MM:'' s;
          s = Serial_print_int (ms_per_mm s) s;
          s = Serial_print '':MS_PER_DEG:'' s
      in Serial_println_int (ms_per_deg s) s)"

definition cmd_SET_CAL :: "string list \<Rightarrow> state \<Rightarrow> state" where
  "cmd_SET_CAL args s =
     (case args of
        key # val # rest \<Rightarrow>
          (let v = atoi val in
           if key = ''MS_PER_MM'' then
             (let s = s\<lparr>ms_per_mm := v\<rparr>;
                  s = EEPROM_put EEPROM_ADDR_MS_PER_MM (ms_per_mm s) s;
                  s = Serial_print ''SET_CAL:MS_PER_MM:'' s
              in Serial_println_int (ms_per_mm s) s)
           else if key = ''MS_PER_DEG'' then
             (let s = s\<lparr>ms_per_deg := v\<rparr>;
                  s = EEPROM_put EEPROM_ADDR_MS_PER_DEG (ms_per_deg s) s;
                  s = Serial_print ''SET_CAL:MS_PER_DEG:'' s
              in Serial_println_int (ms_per_deg s) s)
           else Serial_println ''ERROR:Unknown calibration key'' s)
      | _ \<Rightarrow> Serial_println ''ERROR:SET_CAL invalid format'' s)"

definition cmd_PIN_TEST :: "state \<Rightarrow> state" where
  "cmd_PIN_TEST s =
     (let prevENA = motor_speeds s ! 0;
          prevENB = motor_speeds s ! 1;
          s = analogWrite ENA 0 s;
          s = analogWrite ENB 0 s;
          s = digitalWrite IN1 HIGH s;
          s = digitalWrite IN2 LOW s;
          s = digitalWrite IN3 HIGH s;
          s = digitalWrite IN4 LOW s;
          s = delay 200 s;
          s = digitalWrite IN1 LOW s;
          s = digitalWrite IN2 LOW s;
          s = digitalWrite IN3 LOW s;
          s = digitalWrite IN4 LOW s;
          s = Serial_println ''PIN_TEST:OK'' s;
          s = analogWrite ENA prevENA s
      in analogWrite ENB prevENB s)"

definition cmd_MOVE_TIME :: "string list \<Rightarrow> state \<Rightarrow> fault + state" where
  "cmd_MOVE_TIME args s =
     (case args of
        id_tok # dir # dur_tok # rest \<Rightarrow>
          (let mid = atoi id_tok;
               duration = atol dur_tok
           in Inr (startTimedMove mid (dir = ''FWD'') duration s))
      | _ \<Rightarrow> Inl NullPointer)"

definition cmd_MOVE_DIST :: "string list \<Rightarrow> state \<Rightarrow> fault + state" where
  "cmd_MOVE_DIST args s =
     (case args of
        id_tok # dist_tok # rest \<Rightarrow> Inr (moveMotorDistance (atoi id_tok) dist_tok s)
      | _ \<Rightarrow> Inl NullPointer)"

definition cmd_TURN :: "string list \<Rightarrow> state \<Rightarrow> fault + state" where
  "cmd_TURN args s =
     (case args of
        id_tok # deg_tok # rest \<Rightarrow> Inr (turnMotor (atoi id_tok) deg_tok s)
      | _ \<Rightarrow> Inl NullPointer)"

definition cmd_CALIBRATE :: "string list \<Rightarrow> state \<Rightarrow> fault + state" where
  "cmd_CALIBRATE args s =
     (case args of
        kind # rest \<Rightarrow>
          (if kind = ''MOTORS'' then Inr (calibrateMotors s)
           else if kind = ''SENSORS'' then Inr (calibrateSensors s)
           else Inr s)
      | _ \<Rightarrow> Inl NullPointer)"

definition cmd_TEST_MOTOR :: "string list \<Rightarrow> state \<Rightarrow> fault + state" where
  "cmd_TEST_MOTOR args s =
     (case args of
        id_tok # rest \<Rightarrow> Inr (testMotor (atoi id_tok) s)
      | _ \<Rightarrow> Inl NullPointer)"

definition cmd_SENSOR_REPORT :: "string list \<Rightarrow> state \<Rightarrow> state" where
  "cmd_SENSOR_REPORT args s =
     (case args of
        [] \<Rightarrow>
          (let s = Serial_print ''NACK:SENSOR_REPORT:'' s in Serial_println ''<none>'' s)
      | mode_tok # rest \<Rightarrow>
          (let mode = stripTrailing mode_tok in
           if mode = ''ON'' \<or> mode = ''OFF'' then
             (let s = s\<lparr>sensor_report_enabled := (mode = ''ON'')\<rparr>;
                  s = Serial_print ''SENSOR_REPORT:'' s;
                  s = Serial_println (if sensor_report_enabled s then ''ON'' else ''OFF'') s;
                  s = Serial_print ''ACK:'' s
              in Serial_println ''SENSOR_REPORT'' s)
           else
             (let s = Serial_print ''NACK:SENSOR_REPORT:'' s in Serial_println mode s)))"

text \<open>
  The chain of \<open>strcmp\<close> tests on the first token (after \<open>stripTrailing\<close>), applied to
  the tokens of one received line.
\<close>

definition dispatch :: "string list \<Rightarrow> state \<Rightarrow> fault + state" where
  "dispatch toks s =
     (case toks of
        [] \<Rightarrow> Inr s
      | first # args \<Rightarrow>
          (let command = stripTrailing first in
           if command = ''MOTOR_CMD'' then cmd_MOTOR_CMD args s
           else if command = ''SET_SPEED'' then cmd_SET_SPEED args s
           else if command = ''SET_OUTPUT'' then cmd_SET_OUTPUT args s
           else if command = ''GET_CAL'' then Inr (cmd_GET_CAL s)
           else if command = ''SET_CAL'' then Inr (cmd_SET_CAL args s)
           else if command = ''PIN_TEST'' then Inr (cmd_PIN_TEST s)
           else if command = ''MOVE_TIME'' then cmd_MOVE_TIME args s
           else if command = ''MOVE_DIST'' then cmd_MOVE_DIST args s
           else if command = ''TURN'' then cmd_TURN args s
           else if command = ''CALIBRATE'' then cmd_CALIBRATE args s
           else if command = ''TRACK_SUN'' then Inr (trackSun s)
           else if command = ''TEST_MOTOR'' then cmd_TEST_MOTOR args s
           else if command = ''SENSOR_REPORT'' then Inr (cmd_SENSOR_REPORT args s)
           else
             (let s = Serial_print ''Invalid Command:'' s in Inr (Serial_println command s))))"

text \<open>
  \<open>handleSerialCommands\<close> on the bytes \<open>rx\<close> that the serial port holds while its read
  loop runs.
\<close>

primrec read_serial :: "string \<Rightarrow> state \<Rightarrow> state" where
  "read_serial [] s = s"
| "read_serial (inChar # rest) s =
     read_serial rest
       (if inChar = CHR 0x0A then s\<lparr>stringComplete := True\<rparr>
        else s\<lparr>inputString := inputString s @ [inChar]\<rparr>)"

definition process_line :: "state \<Rightarrow> fault + state" where
  "process_line s =
     (let s = s\<lparr>inputString := trim (inputString s)\<rparr>;
          s = Serial_print ''CMD_RCVD:'' s;
          s = Serial_println (toCharArray 200 (inputString s)) s;
          cmd_buffer = toCharArray 200 (inputString s)
      in case dispatch (strtok_all cmd_buffer) s of
           Inl f \<Rightarrow> Inl f
         | Inr s \<Rightarrow> Inr (s\<lparr>inputString := [], stringComplete := False\<rparr>))"

definition handleSerialCommands :: "string \<Rightarrow> state \<Rightarrow> fault + state" where
  "handleSerialCommands rx s =
     (let s = read_serial rx s in
      if stringComplete s then process_line s else Inr s)"

text \<open>One iteration of \<open>loop()\<close>; \<open>elapse\<close> is the passing of time between calls.\<close>

definition loop :: "string \<Rightarrow> state \<Rightarrow> fault + state" where
  "loop rx s =
     (case handleSerialCommands rx s of
        Inl f \<Rightarrow> Inl f
      | Inr s \<Rightarrow> Inr (updateSensorStates (updateTimedMove s)))"

definition elapse :: "clong \<Rightarrow> state \<Rightarrow> state" where
  "elapse d s = s\<lparr>clock := clock s + d\<rparr>"

subsection \<open>Sample boards\<close>

text \<open>
  An erased EEPROM reads \<open>0xFF\<close> in every byte. \<open>board0\<close> is such a board at power-on,
  with both sensor inputs pulled high; \<open>booted\<close> is that board after \<open>setup()\<close>.
\<close>

definition rom_blank :: "nat \<Rightarrow> 8 word" where
  "rom_blank = (\<lambda>a. 255)"

definition board0 :: state where
  "board0 = power_on rom_blank (\<lambda>p. 1) (\<lambda>p. 0)"

definition booted :: state where
  "booted = setup_sketch board0"

subsection \<open>The scheduler slot, and the mapping the specification states\<close>

text \<open>
  \<open>updateTimedMove\<close> treats a timed move as active when the slot's motor id is not the
  sentinel \<open>-1\<close>; the slot then holds that move's motor id, start time and duration.
\<close>

definition timed_move_active :: "state \<Rightarrow> bool" where
  "timed_move_active s = (timed_move_motor_id s \<noteq> - 1)"

definition active_moves :: "state \<Rightarrow> (cint \<times> clong \<times> clong) list" where
  "active_moves s =
     (if timed_move_active s
      then [(timed_move_motor_id s, move_timer_start s, move_duration s)] else [])"

text \<open>
  The percent-to-PWM mapping in the specification's words: \<open>round(p * 255 / 100)\<close>,
  clamped to \<open>[0,255]\<close>. The code's mapping is \<open>map_long\<close>.
\<close>

definition spec_speed_val :: "int \<Rightarrow> int" where
  "spec_speed_val p = max 0 (min 255 (round (real_of_int p * 255 / 100)))"

section \<open>Properties\<close>

lemmas board_defs = emit_def pinMode_def digitalWrite_def analogWrite_def digitalRead_def
  analogRead_def millis_def delay_def Serial_print_def Serial_println_def
  Serial_print_int_def Serial_println_int_def Serial_print_float_def

subsection \<open>The calibration store\<close>

lemma word_cat_bytes:
  "(word_cat (ucast (drop_bit 8 v) :: 8 word) (ucast v :: 8 word) :: 16 word) = v"
  by (rule bit_word_eqI) (auto simp: bit_simps)

lemma EEPROM_get_put: "EEPROM_get addr (EEPROM_put addr v s) = v"
  by (simp add: EEPROM_get_def EEPROM_put_def word_cat_bytes)

lemma setup_ms_per_mm:
  "ms_per_mm (setup_sketch s) =
     (if sint (EEPROM_get EEPROM_ADDR_MS_PER_MM s) \<le> 0 then 50
      else EEPROM_get EEPROM_ADDR_MS_PER_MM s)"
  by (simp add: setup_sketch_def stopMotor_def board_defs EEPROM_get_def Let_def)

lemma setup_ms_per_deg:
  "ms_per_deg (setup_sketch s) =
     (if sint (EEPROM_get EEPROM_ADDR_MS_PER_DEG s) \<le> 0 then 10
      else EEPROM_get EEPROM_ADDR_MS_PER_DEG s)"
  by (simp add: setup_sketch_def stopMotor_def board_defs EEPROM_get_def Let_def)

text \<open>
  C4. \<open>setup()\<close> loads both calibration values from the EEPROM. A loaded value that is
  not positive is replaced by the default (50 for ms-per-mm, 10 for ms-per-deg); a
  positive loaded value is the in-memory value after \<open>setup()\<close>.
\<close>

theorem setup_calibration_defaults:
  "(sint (EEPROM_get EEPROM_ADDR_MS_PER_MM s) \<le> 0 \<longrightarrow> ms_per_mm (setup_sketch s) = 50) \<and>
   (0 < sint (EEPROM_get EEPROM_ADDR_MS_PER_MM s) \<longrightarrow>
      ms_per_mm (setup_sketch s) = EEPROM_get EEPROM_ADDR_MS_PER_MM s) \<and>
   (sint (EEPROM_get EEPROM_ADDR_MS_PER_DEG s) \<le> 0 \<longrightarrow> ms_per_deg (setup_sketch s) = 10) \<and>
   (0 < sint (EEPROM_get EEPROM_ADDR_MS_PER_DEG s) \<longrightarrow>
      ms_per_deg (setup_sketch s) = EEPROM_get EEPROM_ADDR_MS_PER_DEG s)"
  by (simp add: setup_ms_per_mm setup_ms_per_deg)

text \<open>
  Two stores: one holds 60 and 0, the other is erased but for a 12 at offset 4 (an
  erased cell reads as -1).
\<close>

theorem setup_calibration_defaults_witness:
  "sint (EEPROM_get EEPROM_ADDR_MS_PER_MM (power_on ((\<lambda>a. 0)(0 := 60)) (\<lambda>p. 1) (\<lambda>p. 0))) = 60 \<and>
   sint (EEPROM_get EEPROM_ADDR_MS_PER_DEG (power_on ((\<lambda>a. 0)(0 := 60)) (\<lambda>p. 1) (\<lambda>p. 0))) = 0 \<and>
   ms_per_mm (setup_sketch (power_on ((\<lambda>a. 0)(0 := 60)) (\<lambda>p. 1) (\<lambda>p. 0))) = 60 \<and>
   ms_per_deg (setup_sketch (power_on ((\<lambda>a. 0)(0 := 60)) (\<lambda>p. 1) (\<lambda>p. 0))) = 10 \<and>
   sint (EEPROM_get EEPROM_ADDR_MS_PER_MM
           (power_on (rom_blank(4 := 12, 5 := 0)) (\<lambda>p. 1) (\<lambda>p. 0))) = - 1 \<and>
   sint (EEPROM_get EEPROM_ADDR_MS_PER_DEG
           (power_on (rom_blank(4 := 12, 5 := 0)) (\<lambda>p. 1) (\<lambda>p. 0))) = 12 \<and>
   ms_per_mm (setup_sketch (power_on (rom_blank(4 := 12, 5 := 0)) (\<lambda>p. 1) (\<lambda>p. 0))) = 50 \<and>
   ms_per_deg (setup_sketch (power_on (rom_blank(4 := 12, 5 := 0)) (\<lambda>p. 1) (\<lambda>p. 0))) = 12"
  using setup_calibration_defaults [of "power_on ((\<lambda>a. 0)(0 := 60)) (\<lambda>p. 1) (\<lambda>p. 0)"]
    setup_calibration_defaults [of "power_on (rom_blank(4 := 12, 5 := 0)) (\<lambda>p. 1) (\<lambda>p. 0)"]
  by (simp add: EEPROM_get_def power_on_def rom_blank_def word_cat_eq
      EEPROM_ADDR_MS_PER_MM_def EEPROM_ADDR_MS_PER_DEG_def)

subsection \<open>Facts about the sample board and the C library functions\<close>

lemma booted_globals:
  "inputString booted = []" "motor_speeds booted = [255, 255]"
  "ms_per_mm booted = 50" "ms_per_deg booted = 10"
  "timed_move_motor_id booted = - 1" "clock booted = 0"
  "sensor1_last_state booted = - 1" "sensor2_last_state booted = - 1"
  "last_sensor_check booted = 0" "digital_in booted = (\<lambda>p. 1)"
  by (simp_all add: booted_def board0_def power_on_def rom_blank_def setup_sketch_def
      stopMotor_def board_defs EEPROM_get_def word_cat_eq Let_def)

lemma atoi_small:
  "atoi ''0'' = 0" "atoi ''1'' = 1" "atoi ''5'' = 5" "atoi ''-1'' = - 1" "atoi ''60'' = 60"
  "atoi ''-5'' = - 5"
  by (simp_all add: atoi_def strtol_value_def isspace_def isdigit_def)

lemma strtol_small:
  "strtol_value ''1'' = 1" "strtol_value ''50'' = 50" "strtol_value ''100'' = 100"
  by (simp_all add: strtol_value_def isspace_def isdigit_def)

lemma atol_small: "atol ''1000'' = 1000" "atol ''500'' = 500"
  by (simp_all add: atol_def strtol_value_def isspace_def isdigit_def)

lemma print_int_small:
  "print_int 10 = ''10''" "print_int 60 = ''60''" "print_int 1 = ''1''"
  "print_int 2 = ''2''" "print_int 3 = ''3''" "print_int 50 = ''50''"
  by (simp_all add: print_int_def digits_of.simps digit_char_def)

lemma serial_text_append: "serial_text (xs @ ys) = serial_text xs @ serial_text ys"
  by (induction xs rule: serial_text.induct) simp_all

lemma sint_of_int_cint: "- 32768 \<le> k \<Longrightarrow> k < 32768 \<Longrightarrow> sint (of_int k :: cint) = k"
  by (simp add: signed_of_int signed_take_bit_int_eq_self)

lemma sint_of_int_clong:
  "- 2147483648 \<le> k \<Longrightarrow> k < 2147483648 \<Longrightarrow> sint (of_int k :: clong) = k"
  by (simp add: signed_of_int signed_take_bit_int_eq_self)

lemma two_list: "length xs = 2 \<Longrightarrow> xs = [xs ! 0, xs ! 1]"
  by (cases xs; cases "tl xs") auto

subsection \<open>One received line\<close>

lemma read_serial_line:
  "CHR 0x0A \<notin> set line \<Longrightarrow>
   read_serial (line @ [CHR 0x0A]) s =
     s\<lparr>inputString := inputString s @ line, stringComplete := True\<rparr>"
  by (induction line arbitrary: s) auto

text \<open>
  A line that arrives on an empty input buffer: it is trimmed, echoed after
  \<open>CMD_RCVD:\<close>, cut into tokens and dispatched; then the buffer is cleared.
\<close>

lemma handle_line:
  assumes "CHR 0x0A \<notin> set line" and "inputString s = []"
  shows "handleSerialCommands (line @ [CHR 0x0A]) s =
     (case dispatch (strtok_all (toCharArray 200 (trim line)))
             (s\<lparr>stringComplete := True, inputString := trim line,
                io := io s @ [SerialPrint ''CMD_RCVD:'',
                              SerialPrint (toCharArray 200 (trim line) @ CRLF)]\<rparr>) of
        Inl f \<Rightarrow> Inl f
      | Inr s' \<Rightarrow> Inr (s'\<lparr>inputString := [], stringComplete := False\<rparr>))"
  using assms
  by (simp add: handleSerialCommands_def read_serial_line process_line_def Let_def board_defs)

lemma toks_set_cal:
  "strtok_all (toCharArray 200 (trim ''SET_CAL:MS_PER_MM:60'')) =
     [''SET_CAL'', ''MS_PER_MM'', ''60'']"
  by (simp add: strtok_all_def toCharArray_def trim_def isspace_def)

lemma toks_get_cal: "strtok_all (toCharArray 200 (trim ''GET_CAL'')) = [''GET_CAL'']"
  by (simp add: strtok_all_def toCharArray_def trim_def isspace_def)

lemma dispatch_set_cal_mm:
  "dispatch [''SET_CAL'', ''MS_PER_MM'', ''60''] s =
     Inr (Serial_println_int 60 (Serial_print ''SET_CAL:MS_PER_MM:''
            (EEPROM_put EEPROM_ADDR_MS_PER_MM 60 (s\<lparr>ms_per_mm := 60\<rparr>))))"
  by (simp add: dispatch_def stripTrailing_def cmd_SET_CAL_def atoi_small Let_def
      EEPROM_put_def board_defs)

lemma dispatch_get_cal:
  "dispatch [''GET_CAL''] s =
     Inr (Serial_println_int (ms_per_deg s) (Serial_print '':MS_PER_DEG:''
            (Serial_print_int (ms_per_mm s) (Serial_print ''CAL:MS_PER_MM:'' s))))"
  by (simp add: dispatch_def stripTrailing_def cmd_GET_CAL_def Let_def board_defs)

lemma setup_after_power_cycle:
  "ms_per_mm (setup_sketch (power_on rom dins ains)) =
     (if sint (word_cat (rom 1) (rom 0) :: cint) \<le> 0 then 50 else word_cat (rom 1) (rom 0))"
  by (simp add: setup_ms_per_mm EEPROM_get_def EEPROM_ADDR_MS_PER_MM_def power_on_def)

text \<open>
  C5. On an empty input buffer, the line \<open>SET_CAL:MS_PER_MM:60\<close> followed by the line
  \<open>GET_CAL\<close> makes the second command answer (after its echo) with
  \<open>CAL:MS_PER_MM:60:MS_PER_DEG:v\<close>, where \<open>v\<close> is the ms-per-deg value held before the
  \<open>SET_CAL\<close>; ms-per-deg is unchanged; and \<open>setup()\<close> on a board that is powered on
  with the resulting EEPROM loads ms-per-mm = 60.
\<close>

theorem set_cal_get_cal_roundtrip:
  assumes "inputString s = []"
  shows "\<exists>s1 s2.
     handleSerialCommands (''SET_CAL:MS_PER_MM:60'' @ [CHR 0x0A]) s = Inr s1 \<and>
     handleSerialCommands (''GET_CAL'' @ [CHR 0x0A]) s1 = Inr s2 \<and>
     serial_text (io s2) =
       serial_text (io s1) @ ''CMD_RCVD:GET_CAL'' @ CRLF @
       ''CAL:MS_PER_MM:60:MS_PER_DEG:'' @ print_int (sint (ms_per_deg s)) @ CRLF \<and>
     ms_per_deg s2 = ms_per_deg s \<and>
     ms_per_mm (setup_sketch (power_on (eeprom s2) dins ains)) = 60"
proof -
  let ?a = "s\<lparr>stringComplete := True, inputString := trim ''SET_CAL:MS_PER_MM:60'',
                io := io s @ [SerialPrint ''CMD_RCVD:'',
                  SerialPrint (toCharArray 200 (trim ''SET_CAL:MS_PER_MM:60'') @ CRLF)]\<rparr>"
  let ?s1 = "(Serial_println_int 60 (Serial_print ''SET_CAL:MS_PER_MM:''
            (EEPROM_put EEPROM_ADDR_MS_PER_MM 60 (?a\<lparr>ms_per_mm := 60\<rparr>))))
            \<lparr>inputString := [], stringComplete := False\<rparr>"
  have h1: "handleSerialCommands (''SET_CAL:MS_PER_MM:60'' @ [CHR 0x0A]) s = Inr ?s1"
    using assms by (subst handle_line) (simp_all add: toks_set_cal dispatch_set_cal_mm)
  have e1: "inputString ?s1 = []" by simp
  let ?b = "?s1\<lparr>stringComplete := True, inputString := trim ''GET_CAL'',
                io := io ?s1 @ [SerialPrint ''CMD_RCVD:'',
                  SerialPrint (toCharArray 200 (trim ''GET_CAL'') @ CRLF)]\<rparr>"
  let ?s2 = "(Serial_println_int (ms_per_deg ?b) (Serial_print '':MS_PER_DEG:''
            (Serial_print_int (ms_per_mm ?b) (Serial_print ''CAL:MS_PER_MM:'' ?b))))
            \<lparr>inputString := [], stringComplete := False\<rparr>"
  have h2: "handleSerialCommands (''GET_CAL'' @ [CHR 0x0A]) ?s1 = Inr ?s2"
    by (subst handle_line [OF _ e1]) (simp_all add: toks_get_cal dispatch_get_cal)
  have io2: "io ?s2 = io ?s1 @ [SerialPrint ''CMD_RCVD:'', SerialPrint (''GET_CAL'' @ CRLF),
      SerialPrint ''CAL:MS_PER_MM:'', SerialPrint (print_int 60), SerialPrint '':MS_PER_DEG:'',
      SerialPrint (print_int (sint (ms_per_deg s)) @ CRLF)]"
    by (simp add: board_defs EEPROM_put_def toCharArray_def trim_def isspace_def)
  have outp: "serial_text (io ?s2) =
       serial_text (io ?s1) @ ''CMD_RCVD:GET_CAL'' @ CRLF @
       ''CAL:MS_PER_MM:60:MS_PER_DEG:'' @ print_int (sint (ms_per_deg s)) @ CRLF"
    by (simp only: io2 serial_text_append print_int_small) simp
  have d2: "ms_per_deg ?s2 = ms_per_deg s"
    by (simp add: board_defs EEPROM_put_def)
  have rom: "eeprom ?s2 =
      (eeprom s)(0 := ucast (60 :: cint), 1 := ucast (drop_bit 8 (60 :: cint)))"
    by (simp add: board_defs EEPROM_put_def EEPROM_ADDR_MS_PER_MM_def)
  have pc: "ms_per_mm (setup_sketch (power_on (eeprom ?s2) dins ains)) = 60"
    by (simp only: rom setup_after_power_cycle) (simp add: word_cat_bytes)
  show ?thesis using h1 h2 outp d2 pc by blast
qed

theorem set_cal_get_cal_roundtrip_witness:
  "inputString booted = [] \<and>
   (\<exists>s1 s2.
     handleSerialCommands (''SET_CAL:MS_PER_MM:60'' @ [CHR 0x0A]) booted = Inr s1 \<and>
     handleSerialCommands (''GET_CAL'' @ [CHR 0x0A]) s1 = Inr s2 \<and>
     serial_text (io s2) =
       serial_text (io s1) @ ''CMD_RCVD:GET_CAL'' @ CRLF @
       ''CAL:MS_PER_MM:60:MS_PER_DEG:10'' @ CRLF \<and>
     ms_per_deg s2 = 10 \<and>
     ms_per_mm (setup_sketch (power_on (eeprom s2) (\<lambda>p. 1) (\<lambda>p. 0))) = 60)"
proof -
  have h: "inputString booted = []" by (simp add: booted_globals)
  show ?thesis
    using h set_cal_get_cal_roundtrip [OF h, of "\<lambda>p. 1" "\<lambda>p. 0"]
    by (simp add: booted_globals print_int_small)
qed

subsection \<open>The speed command and the Arduino \<open>map\<close>\<close>

lemma sdiv_nonneg: "0 \<le> k \<Longrightarrow> 0 < l \<Longrightarrow> (k::int) sdiv l = k div l"
  by (cases "k = 0") (simp_all add: signed_divide_int_def)

lemma map_long_percent:
  assumes "0 \<le> p" and "p \<le> 100"
  shows "(ucast (map_long (scast (of_int p :: cint)) 0 100 0 255) :: cint) =
           of_int (p * 255 div 100)"
proof -
  have sp: "sint (of_int p :: cint) = p"
    using assms by (simp add: sint_of_int_cint)
  have sc: "(scast (of_int p :: cint) :: clong) = of_int p"
    by (simp add: scast_eq sp)
  have b: "0 \<le> p * 255" "p * 255 \<le> 25500" using assms by simp_all
  have sm: "sint ((of_int p :: clong) * 255) = p * 255"
    using sint_of_int_clong [of "p * 255"] b by simp
  have q: "0 \<le> p * 255 div 100" "p * 255 div 100 \<le> 255"
    using b by simp_all
  have m: "map_long (of_int p) 0 100 0 255 = of_int (p * 255 div 100)"
    using sm by (simp add: map_long_def long_div_def sdiv_nonneg b)
  have "(ucast (of_int (p * 255 div 100) :: clong) :: cint) = of_int (p * 255 div 100)"
    using q by (simp add: unsigned_of_int take_bit_int_eq_self)
  then show ?thesis by (simp only: sc m)
qed

lemma dispatch_SET_SPEED:
  "dispatch (''SET_SPEED'' # args) s = cmd_SET_SPEED args s"
  by (simp add: dispatch_def stripTrailing_def)

text \<open>
  C2, as the code has it. For a percent token whose value \<open>p\<close> lies in \<open>[0,100]\<close>, on a
  state whose speed array has its two cells, \<open>SET_SPEED\<close> stores \<open>p * 255 div 100\<close>
  (the quotient truncated, not rounded; it lies in \<open>[0,255]\<close>): in both cells for the id
  \<open>*\<close>, in cell 0 resp. 1 (the other cell unchanged) for an id token that reads as 0
  resp. 1.
\<close>

theorem set_speed_truncates:
  assumes "0 \<le> strtol_value pct_tok" and "strtol_value pct_tok \<le> 100"
    and "length (motor_speeds s) = 2"
  shows "\<exists>s'. dispatch (''SET_SPEED'' # id_str # pct_tok # rest) s = Inr s' \<and>
     0 \<le> strtol_value pct_tok * 255 div 100 \<and> strtol_value pct_tok * 255 div 100 \<le> 255 \<and>
     (id_str = ''*'' \<longrightarrow>
        map sint (motor_speeds s') =
          [strtol_value pct_tok * 255 div 100, strtol_value pct_tok * 255 div 100]) \<and>
     (id_str \<noteq> ''*'' \<and> atoi id_str = 0 \<longrightarrow>
        map sint (motor_speeds s') =
          [strtol_value pct_tok * 255 div 100, sint (motor_speeds s ! 1)]) \<and>
     (id_str \<noteq> ''*'' \<and> atoi id_str = 1 \<longrightarrow>
        map sint (motor_speeds s') =
          [sint (motor_speeds s ! 0), strtol_value pct_tok * 255 div 100])"
proof -
  let ?p = "strtol_value pct_tok"
  let ?v = "?p * 255 div 100"
  have q: "0 \<le> ?v" "?v \<le> 255" using assms by simp_all
  have v: "(ucast (map_long (scast (atoi pct_tok)) 0 100 0 255) :: cint) = of_int ?v"
    unfolding atoi_def using assms(1,2) by (rule map_long_percent)
  have sv: "sint (of_int ?v :: cint) = ?v" using q by (simp add: sint_of_int_cint)
  obtain a b where ms: "motor_speeds s = [a, b]"
    using two_list [OF assms(3)] by blast
  show ?thesis
    using q sv by (auto simp: dispatch_SET_SPEED cmd_SET_SPEED_def Let_def v ms)
qed

theorem set_speed_truncates_witness:
  "strtol_value ''50'' = 50 \<and> length (motor_speeds booted) = 2 \<and>
   (\<exists>s'. dispatch [''SET_SPEED'', ''*'', ''50''] booted = Inr s' \<and>
         map sint (motor_speeds s') = [127, 127]) \<and>
   (\<exists>s'. dispatch [''SET_SPEED'', ''0'', ''50''] booted = Inr s' \<and>
         map sint (motor_speeds s') = [127, 255]) \<and>
   (\<exists>s'. dispatch [''SET_SPEED'', ''1'', ''50''] booted = Inr s' \<and>
         map sint (motor_speeds s') = [255, 127])"
proof -
  have h: "0 \<le> strtol_value ''50''" "strtol_value ''50'' \<le> 100"
    "length (motor_speeds booted) = 2"
    by (simp_all add: strtol_small booted_globals)
  show ?thesis
    using set_speed_truncates [OF h, of "''*''" "[]"]
      set_speed_truncates [OF h, of "''0''" "[]"]
      set_speed_truncates [OF h, of "''1''" "[]"]
    by (simp add: strtol_small booted_globals atoi_small)
qed

text \<open>
  C2 as stated fails at \<open>SET_SPEED:0:1\<close> on the booted board: the stored
  setting is 2, while \<open>round(1 * 255 / 100)\<close> is 3.
\<close>

theorem set_speed_rounding_counterexample:
  "\<exists>s'. dispatch (strtok_all ''SET_SPEED:0:1'') booted = Inr s' \<and>
        sint (motor_speeds s' ! 0) = 2 \<and> spec_speed_val 1 = 3"
proof -
  have t: "strtok_all ''SET_SPEED:0:1'' = [''SET_SPEED'', ''0'', ''1'']"
    by (simp add: strtok_all_def)
  have v: "(ucast (map_long 1 0 100 0 255) :: cint) = 2"
    by (simp add: map_long_def long_div_def)
  have r: "spec_speed_val 1 = 3"
    by (simp add: spec_speed_val_def round_def)
  show ?thesis
    by (simp add: t dispatch_SET_SPEED cmd_SET_SPEED_def Let_def v atoi_small booted_globals r)
qed

subsection \<open>The timed-move slot\<close>

lemma dispatch_MOVE_TIME:
  "dispatch (''MOVE_TIME'' # args) s = cmd_MOVE_TIME args s"
  by (simp add: dispatch_def stripTrailing_def)

lemma dispatch_MOTOR_CMD:
  "dispatch (''MOTOR_CMD'' # args) s = cmd_MOTOR_CMD args s"
  by (simp add: dispatch_def stripTrailing_def)

lemma startTimedMove_slot:
  "timed_move_motor_id (startTimedMove mid forward duration s) = mid"
  "move_timer_start (startTimedMove mid forward duration s) = clock s"
  "move_duration (startTimedMove mid forward duration s) = duration"
  "clock (startTimedMove mid forward duration s) = clock s"
  by (simp_all add: startTimedMove_def runMotor_def board_defs Let_def)

text \<open>
  C3, as the code has it. In every state the slot holds at most one move, and its motor id
  is the sentinel \<open>-1\<close> exactly when no move is active. A \<open>MOVE_TIME\<close> with its three
  argument tokens, whose id token does not read as \<open>-1\<close>, returns without a fault and
  overwrites the slot: motor id, start time (the current \<open>millis()\<close>) and duration are
  those of the new move, which is then the one active move, whatever the slot held
  before.
\<close>

theorem move_time_replaces_slot:
  "length (active_moves s) \<le> 1 \<and>
   (timed_move_motor_id s = - 1) = (active_moves s = []) \<and>
   (atoi id_tok \<noteq> - 1 \<longrightarrow>
     (\<exists>s'. dispatch (''MOVE_TIME'' # id_tok # dir # dur_tok # rest) s = Inr s' \<and>
           timed_move_motor_id s' = atoi id_tok \<and>
           move_timer_start s' = clock s \<and>
           move_duration s' = atol dur_tok \<and>
           active_moves s' = [(atoi id_tok, clock s, atol dur_tok)]))"
  by (simp add: active_moves_def timed_move_active_def dispatch_MOVE_TIME cmd_MOVE_TIME_def
      startTimedMove_slot Let_def)

text \<open>
  A move for motor 0 is active since time 0; 300 ms later \<open>MOVE_TIME:1:REV:500\<close>
  arrives.
\<close>

theorem move_time_replaces_slot_witness:
  "atoi ''1'' \<noteq> - 1 \<and>
   active_moves (startTimedMove 0 True 1000 booted) = [(0, 0, 1000)] \<and>
   (\<exists>s'. dispatch [''MOVE_TIME'', ''1'', ''REV'', ''500'']
           (elapse 300 (startTimedMove 0 True 1000 booted)) = Inr s' \<and>
         active_moves s' = [(1, 300, 500)])"
proof -
  have h: "atoi ''1'' \<noteq> - 1" by (simp add: atoi_small)
  have a: "active_moves (startTimedMove 0 True 1000 booted) = [(0, 0, 1000)]"
    by (simp add: active_moves_def timed_move_active_def startTimedMove_slot booted_globals)
  show ?thesis
    using h a move_time_replaces_slot
      [of "elapse 300 (startTimedMove 0 True 1000 booted)" "''1''" "''REV''" "''500''" "[]"]
    by (simp add: atoi_small atol_small elapse_def startTimedMove_slot booted_globals) blast
qed

text \<open>
  C3 as stated fails for the id \<open>-1\<close>: while the move for motor 0 is active,
  \<open>MOVE_TIME:-1:FWD:500\<close> writes the sentinel into the slot, and no move is active
  afterwards.
\<close>

theorem move_time_sentinel_counterexample:
  "timed_move_active (startTimedMove 0 True 1000 booted) \<and>
   (\<exists>s'. dispatch (strtok_all ''MOVE_TIME:-1:FWD:500'') (startTimedMove 0 True 1000 booted)
           = Inr s' \<and>
         active_moves s' = [] \<and> \<not> timed_move_active s')"
proof -
  have t: "strtok_all ''MOVE_TIME:-1:FWD:500'' = [''MOVE_TIME'', ''-1'', ''FWD'', ''500'']"
    by (simp add: strtok_all_def)
  show ?thesis
    by (simp add: t dispatch_MOVE_TIME cmd_MOVE_TIME_def Let_def atoi_small active_moves_def
        timed_move_active_def startTimedMove_slot)
qed

text \<open>
  C8. \<open>MOTOR_CMD:<id>:STOP\<close> returns without a fault and leaves the slot's motor id,
  start time and duration as they were, so a timed move that was active is still active
  (in particular one for the same motor). For motor 0 resp. 1 the command writes that
  motor's two direction pins low and its PWM output to 0, and nothing else.
\<close>

theorem stop_keeps_timed_move_slot:
  "\<exists>s'. dispatch (''MOTOR_CMD'' # id_tok # ''STOP'' # rest) s = Inr s' \<and>
     timed_move_motor_id s' = timed_move_motor_id s \<and>
     move_timer_start s' = move_timer_start s \<and>
     move_duration s' = move_duration s \<and>
     active_moves s' = active_moves s \<and>
     (atoi id_tok = 0 \<longrightarrow>
        io s' = io s @ [DigitalWrite IN1 LOW, DigitalWrite IN2 LOW, AnalogWrite ENA 0]) \<and>
     (atoi id_tok = 1 \<longrightarrow>
        io s' = io s @ [DigitalWrite IN3 LOW, DigitalWrite IN4 LOW, AnalogWrite ENB 0])"
  by (simp add: dispatch_MOTOR_CMD cmd_MOTOR_CMD_def stopMotor_def board_defs Let_def
      active_moves_def timed_move_active_def)

text \<open>A timed move for motor 0, resp. motor 1, is active when that motor is stopped.\<close>

theorem stop_keeps_timed_move_slot_witness:
  "atoi ''0'' = 0 \<and> atoi ''1'' = 1 \<and>
   active_moves (startTimedMove 0 True 1000 booted) = [(0, 0, 1000)] \<and>
   (\<exists>s'. dispatch [''MOTOR_CMD'', ''0'', ''STOP''] (startTimedMove 0 True 1000 booted) = Inr s' \<and>
      io s' = io (startTimedMove 0 True 1000 booted) @
         [DigitalWrite IN1 LOW, DigitalWrite IN2 LOW, AnalogWrite ENA 0] \<and>
      active_moves s' = [(0, 0, 1000)]) \<and>
   active_moves (startTimedMove 1 False 700 booted) = [(1, 0, 700)] \<and>
   (\<exists>s'. dispatch [''MOTOR_CMD'', ''1'', ''STOP''] (startTimedMove 1 False 700 booted) = Inr s' \<and>
      io s' = io (startTimedMove 1 False 700 booted) @
         [DigitalWrite IN3 LOW, DigitalWrite IN4 LOW, AnalogWrite ENB 0] \<and>
      active_moves s' = [(1, 0, 700)])"
proof -
  have a: "active_moves (startTimedMove 0 True 1000 booted) = [(0, 0, 1000)]"
    "active_moves (startTimedMove 1 False 700 booted) = [(1, 0, 700)]"
    by (simp_all add: active_moves_def timed_move_active_def startTimedMove_slot booted_globals)
  show ?thesis
    using stop_keeps_timed_move_slot [of "''0''" "[]" "startTimedMove 0 True 1000 booted"]
      stop_keeps_timed_move_slot [of "''1''" "[]" "startTimedMove 1 False 700 booted"]
    by (simp add: atoi_small a) blast
qed

subsection \<open>Completion of a timed move\<close>

lemma stopMotor_serial: "serial_text (io (stopMotor mid s)) = serial_text (io s)"
  by (simp add: stopMotor_def board_defs Let_def serial_text_append)

text \<open>No call of \<open>updateTimedMove\<close> writes to the serial port.\<close>

lemma updateTimedMove_serial: "serial_text (io (updateTimedMove s)) = serial_text (io s)"
  by (simp add: updateTimedMove_def Let_def stopMotor_serial)

text \<open>
  Before the deadline, and when the slot holds the sentinel, the tick changes nothing; at
  or after the deadline of an active move it stops the slot's motor and clears the slot.
\<close>

lemma updateTimedMove_early:
  "clock s - move_timer_start s < move_duration s \<Longrightarrow> updateTimedMove s = s"
  by (simp add: updateTimedMove_def millis_def not_le [symmetric])

lemma updateTimedMove_idle: "\<not> timed_move_active s \<Longrightarrow> updateTimedMove s = s"
  by (simp add: updateTimedMove_def timed_move_active_def)

lemma updateTimedMove_due:
  "timed_move_active s \<Longrightarrow> move_duration s \<le> clock s - move_timer_start s \<Longrightarrow>
   updateTimedMove s = (stopMotor (timed_move_motor_id s) s)\<lparr>timed_move_motor_id := - 1\<rparr>"
  by (simp add: updateTimedMove_def timed_move_active_def millis_def Let_def)

lemma toks_move_time:
  "strtok_all (toCharArray 200 (trim ''MOVE_TIME:0:FWD:1000'')) =
     [''MOVE_TIME'', ''0'', ''FWD'', ''1000'']"
  by (simp add: strtok_all_def toCharArray_def trim_def isspace_def)

text \<open>
  C1, at the input \<open>MOVE_TIME:0:FWD:1000\<close> on the booted board, followed 1000 ms later
  by a tick: the tick stops motor 0 and clears the slot, and it writes no character to
  the serial port (no \<open>MOVE_DONE:0\<close> line).
\<close>

theorem timed_move_completion_emits_nothing:
  "\<exists>s1. handleSerialCommands (''MOVE_TIME:0:FWD:1000'' @ [CHR 0x0A]) booted = Inr s1 \<and>
     active_moves s1 = [(0, 0, 1000)] \<and>
     clock (elapse 1000 s1) - move_timer_start (elapse 1000 s1) = 1000 \<and>
     active_moves (updateTimedMove (elapse 1000 s1)) = [] \<and>
     io (updateTimedMove (elapse 1000 s1)) =
       io s1 @ [DigitalWrite IN1 LOW, DigitalWrite IN2 LOW, AnalogWrite ENA 0] \<and>
     serial_text (io (updateTimedMove (elapse 1000 s1))) = serial_text (io s1)"
proof -
  let ?a = "booted\<lparr>stringComplete := True, inputString := trim ''MOVE_TIME:0:FWD:1000'',
                io := io booted @ [SerialPrint ''CMD_RCVD:'',
                  SerialPrint (toCharArray 200 (trim ''MOVE_TIME:0:FWD:1000'') @ CRLF)]\<rparr>"
  let ?s1 = "(startTimedMove 0 True 1000 ?a)\<lparr>inputString := [], stringComplete := False\<rparr>"
  have h1: "handleSerialCommands (''MOVE_TIME:0:FWD:1000'' @ [CHR 0x0A]) booted = Inr ?s1"
    by (subst handle_line)
      (simp_all add: booted_globals toks_move_time dispatch_MOVE_TIME cmd_MOVE_TIME_def
        atoi_small atol_small Let_def)
  have slot: "timed_move_motor_id ?s1 = 0" "move_timer_start ?s1 = 0"
    "move_duration ?s1 = 1000" "clock ?s1 = 0"
    by (simp_all add: startTimedMove_slot booted_globals)
  have a1: "active_moves ?s1 = [(0, 0, 1000)]"
    using slot by (simp add: active_moves_def timed_move_active_def)
  have el: "clock (elapse 1000 ?s1) - move_timer_start (elapse 1000 ?s1) = 1000"
    using slot by (simp add: elapse_def)
  have u: "updateTimedMove (elapse 1000 ?s1) =
      (stopMotor 0 (elapse 1000 ?s1))\<lparr>timed_move_motor_id := - 1\<rparr>"
    using slot by (simp add: updateTimedMove_def millis_def elapse_def Let_def)
  have a2: "active_moves (updateTimedMove (elapse 1000 ?s1)) = []"
    by (simp only: u) (simp add: active_moves_def timed_move_active_def)
  have io2: "io (updateTimedMove (elapse 1000 ?s1)) =
       io ?s1 @ [DigitalWrite IN1 LOW, DigitalWrite IN2 LOW, AnalogWrite ENA 0]"
    by (simp only: u) (simp add: stopMotor_def board_defs Let_def elapse_def)
  have st: "serial_text (io (updateTimedMove (elapse 1000 ?s1))) = serial_text (io ?s1)"
    by (simp only: updateTimedMove_serial) (simp add: elapse_def)
  show ?thesis using h1 a1 el a2 io2 st by blast
qed

subsection \<open>Sensor polling\<close>

text \<open>
  C6. \<open>updateSensorStates\<close> commutes with any setting of \<open>sensor_report_enabled\<close>:
  the flag is not read. Less than 250 ms after the last poll the call changes nothing.
  From 250 ms on it polls: the poll time and both stored levels are updated to the fresh
  readings, and the text written is one \<open>SENSOR_STATE:<pin>:<level>\<close> line for each
  sensor whose fresh level differs from its stored level, and nothing else.
\<close>

theorem sensor_poll_ignores_flag:
  "updateSensorStates (s\<lparr>sensor_report_enabled := b\<rparr>) =
     (updateSensorStates s)\<lparr>sensor_report_enabled := b\<rparr> \<and>
   (clock s - last_sensor_check s < 250 \<longrightarrow> updateSensorStates s = s) \<and>
   (250 \<le> clock s - last_sensor_check s \<longrightarrow>
      last_sensor_check (updateSensorStates s) = clock s \<and>
      sensor1_last_state (updateSensorStates s) = digital_in s SENSOR_PIN_1 \<and>
      sensor2_last_state (updateSensorStates s) = digital_in s SENSOR_PIN_2 \<and>
      serial_text (io (updateSensorStates s)) =
        serial_text (io s) @
        (if digital_in s SENSOR_PIN_1 \<noteq> sensor1_last_state s
         then ''SENSOR_STATE:2:'' @ print_int (sint (digital_in s SENSOR_PIN_1)) @ CRLF
         else []) @
        (if digital_in s SENSOR_PIN_2 \<noteq> sensor2_last_state s
         then ''SENSOR_STATE:3:'' @ print_int (sint (digital_in s SENSOR_PIN_2)) @ CRLF
         else []))"
proof (intro conjI impI)
  show "updateSensorStates (s\<lparr>sensor_report_enabled := b\<rparr>) =
     (updateSensorStates s)\<lparr>sensor_report_enabled := b\<rparr>"
    by (simp add: updateSensorStates_def board_defs Let_def)
next
  assume "clock s - last_sensor_check s < 250"
  then show "updateSensorStates s = s"
    by (simp add: updateSensorStates_def SENSOR_CHECK_INTERVAL_def millis_def not_le [symmetric])
next
  assume h: "250 \<le> clock s - last_sensor_check s"
  show "last_sensor_check (updateSensorStates s) = clock s"
    using h by (simp add: updateSensorStates_def SENSOR_CHECK_INTERVAL_def board_defs Let_def)
  show "sensor1_last_state (updateSensorStates s) = digital_in s SENSOR_PIN_1"
    using h by (simp add: updateSensorStates_def SENSOR_CHECK_INTERVAL_def board_defs Let_def)
  show "sensor2_last_state (updateSensorStates s) = digital_in s SENSOR_PIN_2"
    using h by (simp add: updateSensorStates_def SENSOR_CHECK_INTERVAL_def board_defs Let_def)
  show "serial_text (io (updateSensorStates s)) =
        serial_text (io s) @
        (if digital_in s SENSOR_PIN_1 \<noteq> sensor1_last_state s
         then ''SENSOR_STATE:2:'' @ print_int (sint (digital_in s SENSOR_PIN_1)) @ CRLF
         else []) @
        (if digital_in s SENSOR_PIN_2 \<noteq> sensor2_last_state s
         then ''SENSOR_STATE:3:'' @ print_int (sint (digital_in s SENSOR_PIN_2)) @ CRLF
         else [])"
    using h
    by (simp add: updateSensorStates_def SENSOR_CHECK_INTERVAL_def board_defs Let_def
        serial_text_append SENSOR_PIN_1_def SENSOR_PIN_2_def print_int_small)
qed

text \<open>
  On the booted board (stored levels unknown, both inputs high): no poll at time 0; at
  250 ms both sensors are reported, with the flag on and with the flag off.
\<close>

theorem sensor_poll_ignores_flag_witness:
  "clock booted - last_sensor_check booted < 250 \<and> updateSensorStates booted = booted \<and>
   250 \<le> clock (elapse 250 booted) - last_sensor_check (elapse 250 booted) \<and>
   serial_text (io (updateSensorStates (elapse 250 booted))) =
     serial_text (io booted) @ ''SENSOR_STATE:2:1'' @ CRLF @ ''SENSOR_STATE:3:1'' @ CRLF \<and>
   serial_text (io (updateSensorStates ((elapse 250 booted)\<lparr>sensor_report_enabled := False\<rparr>))) =
     serial_text (io booted) @ ''SENSOR_STATE:2:1'' @ CRLF @ ''SENSOR_STATE:3:1'' @ CRLF"
  using sensor_poll_ignores_flag [where s = booted and b = False]
    sensor_poll_ignores_flag [where s = "elapse 250 booted" and b = False]
  by (simp add: elapse_def booted_globals print_int_small SENSOR_PIN_1_def SENSOR_PIN_2_def)

subsection \<open>Motor ids other than 0 and 1\<close>

lemma cint_01:
  assumes "0 \<le> sint (w :: cint)" and "sint w < 2"
  shows "w = 0 \<or> w = 1"
proof -
  have w: "w = of_int (sint w)" by simp
  have "sint w = 0 \<or> sint w = 1" using assms by arith
  then show ?thesis
  proof
    assume "sint w = 0"
    with w show ?thesis by simp
  next
    assume "sint w = 1"
    with w show ?thesis by simp
  qed
qed

text \<open>
  C10. For a motor id other than 0 and 1, \<open>runMotor\<close> and \<open>stopMotor\<close> return the state
  as it is (no event is added to the trace), and a \<open>SET_SPEED\<close> whose id token is not
  \<open>*\<close> and reads as that id returns the state as it is (both speed settings
  unchanged).
\<close>

theorem invalid_motor_id_noop:
  assumes "mid \<noteq> 0" and "mid \<noteq> 1"
  shows "runMotor mid forward s = s \<and> stopMotor mid s = s \<and>
     (id_str \<noteq> ''*'' \<and> atoi id_str = mid \<longrightarrow>
        dispatch (''SET_SPEED'' # id_str # pct_tok # rest) s = Inr s)"
  using assms cint_01 [of mid]
  by (auto simp: runMotor_def stopMotor_def dispatch_SET_SPEED cmd_SET_SPEED_def Let_def)

theorem invalid_motor_id_noop_witness:
  "(5 :: cint) \<noteq> 0 \<and> (5 :: cint) \<noteq> 1 \<and> ''5'' \<noteq> ''*'' \<and> atoi ''5'' = 5 \<and>
   runMotor 5 True booted = booted \<and> stopMotor 5 booted = booted \<and>
   dispatch [''SET_SPEED'', ''5'', ''50''] booted = Inr booted"
  using invalid_motor_id_noop [of 5 True booted "''5''" "''50''" "[]"]
  by (simp add: atoi_small)

subsection \<open>Calibration values are stored unchecked\<close>

lemma toks_set_cal_bad:
  "strtok_all (toCharArray 200 (trim ''SET_CAL:MS_PER_MM:0'')) =
     [''SET_CAL'', ''MS_PER_MM'', ''0'']"
  "strtok_all (toCharArray 200 (trim ''SET_CAL:MS_PER_DEG:-5'')) =
     [''SET_CAL'', ''MS_PER_DEG'', ''-5'']"
  by (simp_all add: strtok_all_def toCharArray_def trim_def isspace_def)

lemma dispatch_SET_CAL: "dispatch (''SET_CAL'' # args) s = Inr (cmd_SET_CAL args s)"
  by (simp add: dispatch_def stripTrailing_def)

text \<open>\<open>SET_CAL\<close> stores whatever \<open>atoi\<close> reads from the value token.\<close>

lemma cmd_SET_CAL_values:
  "ms_per_mm (cmd_SET_CAL [''MS_PER_MM'', val] s) = atoi val"
  "ms_per_deg (cmd_SET_CAL [''MS_PER_DEG'', val] s) = atoi val"
  "inputString (cmd_SET_CAL args s) = inputString s"
  by (simp_all add: cmd_SET_CAL_def Let_def EEPROM_put_def board_defs split: list.splits)

text \<open>
  C7, at the inputs \<open>SET_CAL:MS_PER_MM:0\<close> and \<open>SET_CAL:MS_PER_DEG:-5\<close> on the booted
  board (calibration 50 and 10): afterwards ms-per-mm is 0 and ms-per-deg is -5.
\<close>

theorem set_cal_stores_nonpositive:
  "0 < sint (ms_per_mm booted) \<and> 0 < sint (ms_per_deg booted) \<and>
   (\<exists>s1 s2.
      handleSerialCommands (''SET_CAL:MS_PER_MM:0'' @ [CHR 0x0A]) booted = Inr s1 \<and>
      sint (ms_per_mm s1) = 0 \<and>
      handleSerialCommands (''SET_CAL:MS_PER_DEG:-5'' @ [CHR 0x0A]) s1 = Inr s2 \<and>
      sint (ms_per_mm s2) = 0 \<and> sint (ms_per_deg s2) = - 5)"
proof -
  let ?a = "booted\<lparr>stringComplete := True, inputString := trim ''SET_CAL:MS_PER_MM:0'',
                io := io booted @ [SerialPrint ''CMD_RCVD:'',
                  SerialPrint (toCharArray 200 (trim ''SET_CAL:MS_PER_MM:0'') @ CRLF)]\<rparr>"
  let ?s1 = "(cmd_SET_CAL [''MS_PER_MM'', ''0''] ?a)
               \<lparr>inputString := [], stringComplete := False\<rparr>"
  have h1: "handleSerialCommands (''SET_CAL:MS_PER_MM:0'' @ [CHR 0x0A]) booted = Inr ?s1"
    by (subst handle_line) (simp_all add: booted_globals toks_set_cal_bad dispatch_SET_CAL)
  have e1: "inputString ?s1 = []" by simp
  let ?b = "?s1\<lparr>stringComplete := True, inputString := trim ''SET_CAL:MS_PER_DEG:-5'',
                io := io ?s1 @ [SerialPrint ''CMD_RCVD:'',
                  SerialPrint (toCharArray 200 (trim ''SET_CAL:MS_PER_DEG:-5'') @ CRLF)]\<rparr>"
  let ?s2 = "(cmd_SET_CAL [''MS_PER_DEG'', ''-5''] ?b)
               \<lparr>inputString := [], stringComplete := False\<rparr>"
  have h2: "handleSerialCommands (''SET_CAL:MS_PER_DEG:-5'' @ [CHR 0x0A]) ?s1 = Inr ?s2"
    by (subst handle_line [OF _ e1]) (simp_all add: toks_set_cal_bad dispatch_SET_CAL)
  have m1: "sint (ms_per_mm ?s1) = 0"
    by (simp add: cmd_SET_CAL_values atoi_small)
  have m2: "sint (ms_per_mm ?s2) = 0"
    by (simp add: cmd_SET_CAL_def Let_def EEPROM_put_def board_defs atoi_small)
  have d2: "sint (ms_per_deg ?s2) = - 5"
    by (simp add: cmd_SET_CAL_values atoi_small)
  have b: "0 < sint (ms_per_mm booted)" "0 < sint (ms_per_deg booted)"
    by (simp_all add: booted_globals)
  show ?thesis using b h1 h2 m1 m2 d2 by blast
qed

subsection \<open>The pin test\<close>








end
